theory Spec2Isabelle
  imports Main "HOL-Library.Word" "HOL-Library.Multiset"
begin

unbundle bit_operations_syntax

section \<open>Numbers\<close>

text \<open>
  A C++ \<open>float\<close> is kept as its 32-bit pattern. Nothing below computes with floats;
  values are only stored, returned and compared, and "the same bits" is equality of words.
  The exponent is bits 23..30, the fraction bits 0..22.
\<close>

type_synonym float32 = "32 word"

definition float_exponent :: "float32 \<Rightarrow> 32 word" where
  "float_exponent x = drop_bit 23 x AND 255"

definition float_fraction :: "float32 \<Rightarrow> 32 word" where
  "float_fraction x = x AND 8388607"

definition is_finite :: "float32 \<Rightarrow> bool" where
  "is_finite x \<longleftrightarrow> float_exponent x \<noteq> 255"

definition is_nan :: "float32 \<Rightarrow> bool" where
  "is_nan x \<longleftrightarrow> float_exponent x = 255 \<and> float_fraction x \<noteq> 0"

section \<open>CompactValue\<close>

text \<open>
  Modelled from the spec: \<open>yoga/style/CompactValue.h\<close> is included by \<open>Style.h\<close> but is
  not among the sources. Section 3 of the specification: a kind out of Undefined, Auto,
  Point, Percent; Point and Percent carry a numeric payload, Undefined and Auto carry none.
\<close>

datatype YGUnit = YGUnitUndefined | YGUnitPoint | YGUnitPercent | YGUnitAuto

datatype CompactValue =
    CompactUndefined
  | CompactAuto
  | CompactPoint float32
  | CompactPercent float32

text \<open>
  Modelled from the spec: the sentinel that \<open>value()\<close> returns for a kind without
  payload (section 4.1, "a defined not-applicable sentinel"). The pattern chosen here is
  the quiet not-a-number; no theorem depends on which pattern it is.
\<close>

definition YGUndefined :: float32 where
  "YGUndefined = 2143289344"

text \<open>Modelled from the spec: the four constructors of section 4.1.\<close>

definition ofUndefined :: CompactValue where
  "ofUndefined = CompactUndefined"

definition ofAuto :: CompactValue where
  "ofAuto = CompactAuto"

definition ofPoints :: "float32 \<Rightarrow> CompactValue" where
  "ofPoints x = CompactPoint x"

definition ofPercent :: "float32 \<Rightarrow> CompactValue" where
  "ofPercent x = CompactPercent x"

text \<open>Modelled from the spec: \<open>unit()\<close> returns the kind (section 4.1).\<close>

fun CompactValue_unit :: "CompactValue \<Rightarrow> YGUnit" where
  "CompactValue_unit CompactUndefined = YGUnitUndefined"
| "CompactValue_unit CompactAuto = YGUnitAuto"
| "CompactValue_unit (CompactPoint x) = YGUnitPoint"
| "CompactValue_unit (CompactPercent x) = YGUnitPercent"

text \<open>
  Modelled from the spec: \<open>value()\<close> returns the payload, or the sentinel when the kind
  carries none (section 4.1).
\<close>

fun CompactValue_value :: "CompactValue \<Rightarrow> float32" where
  "CompactValue_value CompactUndefined = YGUndefined"
| "CompactValue_value CompactAuto = YGUndefined"
| "CompactValue_value (CompactPoint x) = x"
| "CompactValue_value (CompactPercent x) = x"

text \<open>
  Modelled from the spec: the boundary representation of a length, a number and a kind
  (section 6), and the two conversions of section 4.1.
\<close>

record YGValue =
  YGValue_value :: float32
  YGValue_unit :: YGUnit

definition CompactValue_to_YGValue :: "CompactValue \<Rightarrow> YGValue" where
  "CompactValue_to_YGValue c =
     \<lparr>YGValue_value = CompactValue_value c, YGValue_unit = CompactValue_unit c\<rparr>"

definition CompactValue_of_YGValue :: "YGValue \<Rightarrow> CompactValue" where
  "CompactValue_of_YGValue v =
     (case YGValue_unit v of
        YGUnitUndefined \<Rightarrow> ofUndefined
      | YGUnitAuto \<Rightarrow> ofAuto
      | YGUnitPoint \<Rightarrow> ofPoints (YGValue_value v)
      | YGUnitPercent \<Rightarrow> ofPercent (YGValue_value v))"

text \<open>
  Modelled from the spec: equality of two CompactValues (section 4.1) compares the kind
  first and then, for Point and Percent, the payload bit by bit.
\<close>

definition CompactValue_eq :: "CompactValue \<Rightarrow> CompactValue \<Rightarrow> bool" where
  "CompactValue_eq a b \<longleftrightarrow>
     (if CompactValue_unit a \<noteq> CompactValue_unit b then False
      else if CompactValue_unit a = YGUnitPoint \<or> CompactValue_unit a = YGUnitPercent
        then CompactValue_value a = CompactValue_value b
      else True)"

section \<open>YGFloatOptional\<close>

text \<open>
  Modelled from the spec: \<open>yoga/YGFloatOptional.h\<close> is not among the sources. Section 3
  calls the four scalars "optional scalar floats", section 7 says a never-written one reads
  as a defined absent indicator, section 4.4 that they compare "presence-then-value".
  The value comparison is taken on the stored pattern.
\<close>

type_synonym YGFloatOptional = "float32 option"

definition YGFloatOptional_default :: YGFloatOptional where
  "YGFloatOptional_default = None"

definition isUndefined :: "YGFloatOptional \<Rightarrow> bool" where
  "isUndefined x \<longleftrightarrow> x = None"

fun YGFloatOptional_eq :: "YGFloatOptional \<Rightarrow> YGFloatOptional \<Rightarrow> bool" where
  "YGFloatOptional_eq None None = True"
| "YGFloatOptional_eq (Some x) (Some y) = (x = y)"
| "YGFloatOptional_eq None (Some y) = False"
| "YGFloatOptional_eq (Some x) None = False"

section \<open>Index enumerations and Values\<close>

text \<open>
  Modelled from the spec: \<open>YGEnums.h\<close> is not among the sources. Section 3 lists the
  ordinals of the three index enumerations in order: nine edges, two dimensions, three
  gutters.
\<close>

datatype YGEdge =
    YGEdgeLeft | YGEdgeTop | YGEdgeRight | YGEdgeBottom | YGEdgeStart | YGEdgeEnd
  | YGEdgeHorizontal | YGEdgeVertical | YGEdgeAll

datatype YGDimension = YGDimensionWidth | YGDimensionHeight

datatype YGGutter = YGGutterRow | YGGutterColumn | YGGutterAll

fun YGEdge_ord :: "YGEdge \<Rightarrow> nat" where
  "YGEdge_ord YGEdgeLeft = 0"
| "YGEdge_ord YGEdgeTop = 1"
| "YGEdge_ord YGEdgeRight = 2"
| "YGEdge_ord YGEdgeBottom = 3"
| "YGEdge_ord YGEdgeStart = 4"
| "YGEdge_ord YGEdgeEnd = 5"
| "YGEdge_ord YGEdgeHorizontal = 6"
| "YGEdge_ord YGEdgeVertical = 7"
| "YGEdge_ord YGEdgeAll = 8"

fun YGDimension_ord :: "YGDimension \<Rightarrow> nat" where
  "YGDimension_ord YGDimensionWidth = 0"
| "YGDimension_ord YGDimensionHeight = 1"

fun YGGutter_ord :: "YGGutter \<Rightarrow> nat" where
  "YGGutter_ord YGGutterRow = 0"
| "YGGutter_ord YGGutterColumn = 1"
| "YGGutter_ord YGGutterAll = 2"

definition count_YGEdge :: nat where
  "count_YGEdge = 9"

definition count_YGDimension :: nat where
  "count_YGDimension = 2"

definition count_YGGutter :: nat where
  "count_YGGutter = 3"

text \<open>
  Modelled from the spec: \<open>detail::Values\<close> (\<open>Yoga-internal.h\<close>) is not among the
  sources. Sections 3 and 4.3: a fixed-length sequence of CompactValue, one slot per
  ordinal; a slot that was never written holds the default of its container; \<open>set\<close>
  replaces one slot; two containers are equal iff they are equal at every index.
  The length is part of the C++ type; here it is carried by the list.
\<close>

type_synonym Values = "CompactValue list"

definition Values_default :: "nat \<Rightarrow> Values" where
  "Values_default n = replicate n ofUndefined"

definition Values_fill :: "nat \<Rightarrow> CompactValue \<Rightarrow> Values" where
  "Values_fill n v = replicate n v"

definition Values_get :: "Values \<Rightarrow> nat \<Rightarrow> CompactValue" where
  "Values_get vs i = vs ! i"

definition Values_set :: "Values \<Rightarrow> nat \<Rightarrow> CompactValue \<Rightarrow> Values" where
  "Values_set vs i v = vs[i := v]"

definition Values_eq :: "Values \<Rightarrow> Values \<Rightarrow> bool" where
  "Values_eq a b \<longleftrightarrow> list_all2 CompactValue_eq a b"

section \<open>Packed enumerations\<close>

text \<open>
  The declarations of the eight enumerations stored in the flags word (\<open>YGEnums.h\<close>)
  are not among the sources. An enumerator is represented by its ordinal, and what
  \<open>Style.h\<close> uses of the declarations is a parameter: \<open>enums::count\<close> of each
  enumeration and the ordinals of the two enumerators named in the constructor.
\<close>

record YGEnums =
  count_YGDirection :: nat
  count_YGFlexDirection :: nat
  count_YGJustify :: nat
  count_YGAlign :: nat
  count_YGPositionType :: nat
  count_YGWrap :: nat
  count_YGOverflow :: nat
  count_YGDisplay :: nat
  YGAlignFlexStart :: nat
  YGAlignStretch :: nat

text \<open>
  Modelled from the spec: \<open>yoga/BitUtils.h\<close> is not among the sources. Section 3: the
  width of a field is the minimum number of bits that represents the ordinals of its
  enumeration, that is the number of binary digits of the largest ordinal \<open>cnt - 1\<close>.
\<close>

fun log2ceilFn :: "nat \<Rightarrow> nat" where
  "log2ceilFn n = (if n < 1 then 0 else 1 + log2ceilFn (n div 2))"

declare log2ceilFn.simps [simp del]

definition bitWidthFn :: "nat \<Rightarrow> nat" where
  "bitWidthFn cnt = log2ceilFn (cnt - 1)"

text \<open>
  Modelled from the spec (section 4.2): decode shifts the word right by the offset and
  masks to the width; encode clears the bit range of the field and ORs in the value
  shifted to the offset. The template argument of the C++ functions is the enumeration;
  here it is its cardinality.
\<close>

definition getEnumData :: "nat \<Rightarrow> 32 word \<Rightarrow> nat \<Rightarrow> nat" where
  "getEnumData cnt flags index = unat (drop_bit index flags AND mask (bitWidthFn cnt))"

definition setEnumData :: "nat \<Rightarrow> 32 word \<Rightarrow> nat \<Rightarrow> nat \<Rightarrow> 32 word" where
  "setEnumData cnt flags index newValue =
     (flags AND NOT (push_bit index (mask (bitWidthFn cnt)))) OR push_bit index (of_nat newValue)"

section \<open>Style\<close>

text \<open>
  The data members, in declaration order. A member \<open>m_\<close> of the class is the field
  \<open>m'\<close> of the record.
\<close>

record Style =
  flags :: "32 word"
  flex' :: YGFloatOptional
  flexGrow' :: YGFloatOptional
  flexShrink' :: YGFloatOptional
  flexBasis' :: CompactValue
  margin' :: Values
  position' :: Values
  padding' :: Values
  border' :: Values
  gap' :: Values
  dimensions' :: Values
  minDimensions' :: Values
  maxDimensions' :: Values
  aspectRatio' :: YGFloatOptional


subsection \<open>Offsets of the packed fields\<close>

definition directionOffset :: "YGEnums \<Rightarrow> nat" where
  "directionOffset E = 0"

definition flexdirectionOffset :: "YGEnums \<Rightarrow> nat" where
  "flexdirectionOffset E = directionOffset E + bitWidthFn (count_YGDirection E)"

definition justifyContentOffset :: "YGEnums \<Rightarrow> nat" where
  "justifyContentOffset E = flexdirectionOffset E + bitWidthFn (count_YGFlexDirection E)"

definition alignContentOffset :: "YGEnums \<Rightarrow> nat" where
  "alignContentOffset E = justifyContentOffset E + bitWidthFn (count_YGJustify E)"

definition alignItemsOffset :: "YGEnums \<Rightarrow> nat" where
  "alignItemsOffset E = alignContentOffset E + bitWidthFn (count_YGAlign E)"

definition alignSelfOffset :: "YGEnums \<Rightarrow> nat" where
  "alignSelfOffset E = alignItemsOffset E + bitWidthFn (count_YGAlign E)"

definition positionTypeOffset :: "YGEnums \<Rightarrow> nat" where
  "positionTypeOffset E = alignSelfOffset E + bitWidthFn (count_YGAlign E)"

definition flexWrapOffset :: "YGEnums \<Rightarrow> nat" where
  "flexWrapOffset E = positionTypeOffset E + bitWidthFn (count_YGPositionType E)"

definition overflowOffset :: "YGEnums \<Rightarrow> nat" where
  "overflowOffset E = flexWrapOffset E + bitWidthFn (count_YGWrap E)"

definition displayOffset :: "YGEnums \<Rightarrow> nat" where
  "displayOffset E = overflowOffset E + bitWidthFn (count_YGOverflow E)"

subsection \<open>The proxy references\<close>

text \<open>
  \<open>BitfieldRef<T>\<close> holds a reference to the style and an offset. The style is passed
  explicitly; the first argument is \<open>enums::count<T>()\<close>. Reading is the conversion
  operator, assigning returns the updated style.
\<close>

definition BitfieldRef_read :: "nat \<Rightarrow> Style \<Rightarrow> nat \<Rightarrow> nat" where
  "BitfieldRef_read cnt style offset = getEnumData cnt (flags style) offset"

definition BitfieldRef_assign :: "nat \<Rightarrow> Style \<Rightarrow> nat \<Rightarrow> nat \<Rightarrow> Style" where
  "BitfieldRef_assign cnt style offset x =
     style\<lparr>flags := setEnumData cnt (flags style) offset x\<rparr>"

text \<open>
  \<open>Ref<T, Prop>\<close> addresses one data member through a pointer to member. The pointers
  used in \<open>Style.h\<close> are enumerated, with what dereferencing and storing through each
  one does.
\<close>

datatype FloatMember = Ptr_flex | Ptr_flexGrow | Ptr_flexShrink | Ptr_aspectRatio

fun FloatMember_get :: "FloatMember \<Rightarrow> Style \<Rightarrow> YGFloatOptional" where
  "FloatMember_get Ptr_flex style = flex' style"
| "FloatMember_get Ptr_flexGrow style = flexGrow' style"
| "FloatMember_get Ptr_flexShrink style = flexShrink' style"
| "FloatMember_get Ptr_aspectRatio style = aspectRatio' style"

fun FloatMember_put :: "FloatMember \<Rightarrow> YGFloatOptional \<Rightarrow> Style \<Rightarrow> Style" where
  "FloatMember_put Ptr_flex v style = style\<lparr>flex' := v\<rparr>"
| "FloatMember_put Ptr_flexGrow v style = style\<lparr>flexGrow' := v\<rparr>"
| "FloatMember_put Ptr_flexShrink v style = style\<lparr>flexShrink' := v\<rparr>"
| "FloatMember_put Ptr_aspectRatio v style = style\<lparr>aspectRatio' := v\<rparr>"

definition Ref_read :: "FloatMember \<Rightarrow> Style \<Rightarrow> YGFloatOptional" where
  "Ref_read Prop style = FloatMember_get Prop style"

definition Ref_assign :: "FloatMember \<Rightarrow> Style \<Rightarrow> YGFloatOptional \<Rightarrow> Style" where
  "Ref_assign Prop style v = FloatMember_put Prop v style"

text \<open>The one \<open>Ref\<close> over a CompactValue member, the pointer to \<open>flexBasis'\<close>.\<close>

definition Ref_flexBasis_read :: "Style \<Rightarrow> CompactValue" where
  "Ref_flexBasis_read style = flexBasis' style"

definition Ref_flexBasis_assign :: "Style \<Rightarrow> CompactValue \<Rightarrow> Style" where
  "Ref_flexBasis_assign style v = style\<lparr>flexBasis' := v\<rparr>"

text \<open>
  \<open>IdxRef<Idx, Prop>\<close> addresses one container member; its nested \<open>Ref\<close> adds an
  index. The index is passed as the ordinal of the enumerator.
\<close>

datatype ValuesMember =
    Ptr_margin | Ptr_position | Ptr_padding | Ptr_border | Ptr_gap
  | Ptr_dimensions | Ptr_minDimensions | Ptr_maxDimensions

fun ValuesMember_get :: "ValuesMember \<Rightarrow> Style \<Rightarrow> Values" where
  "ValuesMember_get Ptr_margin style = margin' style"
| "ValuesMember_get Ptr_position style = position' style"
| "ValuesMember_get Ptr_padding style = padding' style"
| "ValuesMember_get Ptr_border style = border' style"
| "ValuesMember_get Ptr_gap style = gap' style"
| "ValuesMember_get Ptr_dimensions style = dimensions' style"
| "ValuesMember_get Ptr_minDimensions style = minDimensions' style"
| "ValuesMember_get Ptr_maxDimensions style = maxDimensions' style"

fun ValuesMember_put :: "ValuesMember \<Rightarrow> Values \<Rightarrow> Style \<Rightarrow> Style" where
  "ValuesMember_put Ptr_margin vs style = style\<lparr>margin' := vs\<rparr>"
| "ValuesMember_put Ptr_position vs style = style\<lparr>position' := vs\<rparr>"
| "ValuesMember_put Ptr_padding vs style = style\<lparr>padding' := vs\<rparr>"
| "ValuesMember_put Ptr_border vs style = style\<lparr>border' := vs\<rparr>"
| "ValuesMember_put Ptr_gap vs style = style\<lparr>gap' := vs\<rparr>"
| "ValuesMember_put Ptr_dimensions vs style = style\<lparr>dimensions' := vs\<rparr>"
| "ValuesMember_put Ptr_minDimensions vs style = style\<lparr>minDimensions' := vs\<rparr>"
| "ValuesMember_put Ptr_maxDimensions vs style = style\<lparr>maxDimensions' := vs\<rparr>"

text \<open>The number of slots of each container member: the cardinality of its index type.\<close>

fun ValuesMember_size :: "ValuesMember \<Rightarrow> nat" where
  "ValuesMember_size Ptr_margin = count_YGEdge"
| "ValuesMember_size Ptr_position = count_YGEdge"
| "ValuesMember_size Ptr_padding = count_YGEdge"
| "ValuesMember_size Ptr_border = count_YGEdge"
| "ValuesMember_size Ptr_gap = count_YGGutter"
| "ValuesMember_size Ptr_dimensions = count_YGDimension"
| "ValuesMember_size Ptr_minDimensions = count_YGDimension"
| "ValuesMember_size Ptr_maxDimensions = count_YGDimension"

text \<open>\<open>IdxRef::Ref::operator CompactValue() const\<close>\<close>

definition IdxRef_Ref_read :: "ValuesMember \<Rightarrow> Style \<Rightarrow> nat \<Rightarrow> CompactValue" where
  "IdxRef_Ref_read Prop style idx = Values_get (ValuesMember_get Prop style) idx"

text \<open>\<open>IdxRef::Ref::operator YGValue() const\<close>\<close>

definition IdxRef_Ref_read_YGValue :: "ValuesMember \<Rightarrow> Style \<Rightarrow> nat \<Rightarrow> YGValue" where
  "IdxRef_Ref_read_YGValue Prop style idx =
     CompactValue_to_YGValue (Values_get (ValuesMember_get Prop style) idx)"

text \<open>\<open>IdxRef::Ref::operator=(CompactValue)\<close>\<close>

definition IdxRef_Ref_assign :: "ValuesMember \<Rightarrow> Style \<Rightarrow> nat \<Rightarrow> CompactValue \<Rightarrow> Style" where
  "IdxRef_Ref_assign Prop style idx v =
     ValuesMember_put Prop (Values_set (ValuesMember_get Prop style) idx v) style"

text \<open>\<open>IdxRef::operator=(const Values<Idx>&)\<close>\<close>

definition IdxRef_assign :: "ValuesMember \<Rightarrow> Style \<Rightarrow> Values \<Rightarrow> Style" where
  "IdxRef_assign Prop style vs = ValuesMember_put Prop vs style"

text \<open>\<open>IdxRef::operator const Values<Idx>&() const\<close>\<close>

definition IdxRef_read :: "ValuesMember \<Rightarrow> Style \<Rightarrow> Values" where
  "IdxRef_read Prop style = ValuesMember_get Prop style"

text \<open>\<open>CompactValue IdxRef::operator[](Idx) const\<close>\<close>

definition IdxRef_index_const :: "ValuesMember \<Rightarrow> Style \<Rightarrow> nat \<Rightarrow> CompactValue" where
  "IdxRef_index_const Prop style idx = Values_get (ValuesMember_get Prop style) idx"


subsection \<open>Accessors of the packed enumerations\<close>

text \<open>The const accessors.\<close>

definition direction :: "YGEnums \<Rightarrow> Style \<Rightarrow> nat" where
  "direction E s = getEnumData (count_YGDirection E) (flags s) (directionOffset E)"

definition flexDirection :: "YGEnums \<Rightarrow> Style \<Rightarrow> nat" where
  "flexDirection E s = getEnumData (count_YGFlexDirection E) (flags s) (flexdirectionOffset E)"

definition justifyContent :: "YGEnums \<Rightarrow> Style \<Rightarrow> nat" where
  "justifyContent E s = getEnumData (count_YGJustify E) (flags s) (justifyContentOffset E)"

definition alignContent :: "YGEnums \<Rightarrow> Style \<Rightarrow> nat" where
  "alignContent E s = getEnumData (count_YGAlign E) (flags s) (alignContentOffset E)"

definition alignItems :: "YGEnums \<Rightarrow> Style \<Rightarrow> nat" where
  "alignItems E s = getEnumData (count_YGAlign E) (flags s) (alignItemsOffset E)"

definition alignSelf :: "YGEnums \<Rightarrow> Style \<Rightarrow> nat" where
  "alignSelf E s = getEnumData (count_YGAlign E) (flags s) (alignSelfOffset E)"

definition positionType :: "YGEnums \<Rightarrow> Style \<Rightarrow> nat" where
  "positionType E s = getEnumData (count_YGPositionType E) (flags s) (positionTypeOffset E)"

definition flexWrap :: "YGEnums \<Rightarrow> Style \<Rightarrow> nat" where
  "flexWrap E s = getEnumData (count_YGWrap E) (flags s) (flexWrapOffset E)"

definition overflow :: "YGEnums \<Rightarrow> Style \<Rightarrow> nat" where
  "overflow E s = getEnumData (count_YGOverflow E) (flags s) (overflowOffset E)"

definition display :: "YGEnums \<Rightarrow> Style \<Rightarrow> nat" where
  "display E s = getEnumData (count_YGDisplay E) (flags s) (displayOffset E)"

text \<open>
  The ten packed properties, in declaration order, and for each the \<open>BitfieldRef\<close> that
  its non-const accessor returns: the cardinality of the enumeration \<open>T\<close> and the offset.
\<close>

datatype PackedProp =
    Direction | FlexDirection | JustifyContent | AlignContent | AlignItems | AlignSelf
  | PositionType | FlexWrap | Overflow | Display

fun BitfieldRef_of :: "YGEnums \<Rightarrow> PackedProp \<Rightarrow> nat \<times> nat" where
  "BitfieldRef_of E Direction = (count_YGDirection E, directionOffset E)"
| "BitfieldRef_of E FlexDirection = (count_YGFlexDirection E, flexdirectionOffset E)"
| "BitfieldRef_of E JustifyContent = (count_YGJustify E, justifyContentOffset E)"
| "BitfieldRef_of E AlignContent = (count_YGAlign E, alignContentOffset E)"
| "BitfieldRef_of E AlignItems = (count_YGAlign E, alignItemsOffset E)"
| "BitfieldRef_of E AlignSelf = (count_YGAlign E, alignSelfOffset E)"
| "BitfieldRef_of E PositionType = (count_YGPositionType E, positionTypeOffset E)"
| "BitfieldRef_of E FlexWrap = (count_YGWrap E, flexWrapOffset E)"
| "BitfieldRef_of E Overflow = (count_YGOverflow E, overflowOffset E)"
| "BitfieldRef_of E Display = (count_YGDisplay E, displayOffset E)"

text \<open>Reading and assigning a packed property through its non-const accessor.\<close>

definition PackedProp_read :: "YGEnums \<Rightarrow> PackedProp \<Rightarrow> Style \<Rightarrow> nat" where
  "PackedProp_read E p s =
     BitfieldRef_read (fst (BitfieldRef_of E p)) s (snd (BitfieldRef_of E p))"

definition PackedProp_assign :: "YGEnums \<Rightarrow> PackedProp \<Rightarrow> Style \<Rightarrow> nat \<Rightarrow> Style" where
  "PackedProp_assign E p s x =
     BitfieldRef_assign (fst (BitfieldRef_of E p)) s (snd (BitfieldRef_of E p)) x"

text \<open>Reading a packed property through its const accessor.\<close>

fun PackedProp_get :: "YGEnums \<Rightarrow> PackedProp \<Rightarrow> Style \<Rightarrow> nat" where
  "PackedProp_get E Direction s = direction E s"
| "PackedProp_get E FlexDirection s = flexDirection E s"
| "PackedProp_get E JustifyContent s = justifyContent E s"
| "PackedProp_get E AlignContent s = alignContent E s"
| "PackedProp_get E AlignItems s = alignItems E s"
| "PackedProp_get E AlignSelf s = alignSelf E s"
| "PackedProp_get E PositionType s = positionType E s"
| "PackedProp_get E FlexWrap s = flexWrap E s"
| "PackedProp_get E Overflow s = overflow E s"
| "PackedProp_get E Display s = display E s"

text \<open>The cardinality of the enumeration of a packed property.\<close>

definition PackedProp_count :: "YGEnums \<Rightarrow> PackedProp \<Rightarrow> nat" where
  "PackedProp_count E p = fst (BitfieldRef_of E p)"

subsection \<open>Accessors of the scalars and the containers\<close>

text \<open>The const accessors return the member.\<close>

definition flex :: "Style \<Rightarrow> YGFloatOptional" where
  "flex s = flex' s"

definition flexGrow :: "Style \<Rightarrow> YGFloatOptional" where
  "flexGrow s = flexGrow' s"

definition flexShrink :: "Style \<Rightarrow> YGFloatOptional" where
  "flexShrink s = flexShrink' s"

definition flexBasis :: "Style \<Rightarrow> CompactValue" where
  "flexBasis s = flexBasis' s"

definition margin :: "Style \<Rightarrow> Values" where
  "margin s = margin' s"

definition position :: "Style \<Rightarrow> Values" where
  "position s = position' s"

definition padding :: "Style \<Rightarrow> Values" where
  "padding s = padding' s"

definition border :: "Style \<Rightarrow> Values" where
  "border s = border' s"

definition gap :: "Style \<Rightarrow> Values" where
  "gap s = gap' s"

definition dimensions :: "Style \<Rightarrow> Values" where
  "dimensions s = dimensions' s"

definition minDimensions :: "Style \<Rightarrow> Values" where
  "minDimensions s = minDimensions' s"

definition maxDimensions :: "Style \<Rightarrow> Values" where
  "maxDimensions s = maxDimensions' s"

definition aspectRatio :: "Style \<Rightarrow> YGFloatOptional" where
  "aspectRatio s = aspectRatio' s"

text \<open>
  The const accessor that belongs to each member pointer: the non-const accessor of the
  same name returns the \<open>Ref\<close> or \<open>IdxRef\<close> over that pointer.
\<close>

fun FloatMember_const :: "FloatMember \<Rightarrow> Style \<Rightarrow> YGFloatOptional" where
  "FloatMember_const Ptr_flex s = flex s"
| "FloatMember_const Ptr_flexGrow s = flexGrow s"
| "FloatMember_const Ptr_flexShrink s = flexShrink s"
| "FloatMember_const Ptr_aspectRatio s = aspectRatio s"

fun ValuesMember_const :: "ValuesMember \<Rightarrow> Style \<Rightarrow> Values" where
  "ValuesMember_const Ptr_margin s = margin s"
| "ValuesMember_const Ptr_position s = position s"
| "ValuesMember_const Ptr_padding s = padding s"
| "ValuesMember_const Ptr_border s = border s"
| "ValuesMember_const Ptr_gap s = gap s"
| "ValuesMember_const Ptr_dimensions s = dimensions s"
| "ValuesMember_const Ptr_minDimensions s = minDimensions s"
| "ValuesMember_const Ptr_maxDimensions s = maxDimensions s"

subsection \<open>Construction\<close>

text \<open>
  The default member initialisers, before the body of the constructor runs. An empty
  initialiser leaves every slot of a container at Undefined and a scalar absent;
  \<open>dimensions_{CompactValue::ofAuto()}\<close> fills every slot with Auto (section 3 of the
  specification: each container declares its default, Auto for dimensions).
\<close>

definition Style_members :: Style where
  "Style_members =
     \<lparr>flags = 0,
      flex' = YGFloatOptional_default,
      flexGrow' = YGFloatOptional_default,
      flexShrink' = YGFloatOptional_default,
      flexBasis' = ofAuto,
      margin' = Values_default count_YGEdge,
      position' = Values_default count_YGEdge,
      padding' = Values_default count_YGEdge,
      border' = Values_default count_YGEdge,
      gap' = Values_default count_YGGutter,
      dimensions' = Values_fill count_YGDimension ofAuto,
      minDimensions' = Values_default count_YGDimension,
      maxDimensions' = Values_default count_YGDimension,
      aspectRatio' = YGFloatOptional_default\<rparr>"

text \<open>The constructor: two assignments through the non-const accessors.\<close>

definition Style_new :: "YGEnums \<Rightarrow> Style" where
  "Style_new E =
     PackedProp_assign E AlignItems
       (PackedProp_assign E AlignContent Style_members (YGAlignFlexStart E))
       (YGAlignStretch E)"

subsection \<open>Equality\<close>

text \<open>
  Modelled from the spec: \<open>operator==\<close> on Style is declared in \<open>Style.h\<close> and defined
  elsewhere. Section 4.4: field by field; the packed word by equality of the integer, the
  optional scalars presence-then-value, the containers and the CompactValue member by
  their own equality.
\<close>

definition Style_eq :: "Style \<Rightarrow> Style \<Rightarrow> bool" where
  "Style_eq lhs rhs \<longleftrightarrow>
     flags lhs = flags rhs \<and>
     YGFloatOptional_eq (flex' lhs) (flex' rhs) \<and>
     YGFloatOptional_eq (flexGrow' lhs) (flexGrow' rhs) \<and>
     YGFloatOptional_eq (flexShrink' lhs) (flexShrink' rhs) \<and>
     CompactValue_eq (flexBasis' lhs) (flexBasis' rhs) \<and>
     Values_eq (margin' lhs) (margin' rhs) \<and>
     Values_eq (position' lhs) (position' rhs) \<and>
     Values_eq (padding' lhs) (padding' rhs) \<and>
     Values_eq (border' lhs) (border' rhs) \<and>
     Values_eq (gap' lhs) (gap' rhs) \<and>
     Values_eq (dimensions' lhs) (dimensions' rhs) \<and>
     Values_eq (minDimensions' lhs) (minDimensions' rhs) \<and>
     Values_eq (maxDimensions' lhs) (maxDimensions' rhs) \<and>
     YGFloatOptional_eq (aspectRatio' lhs) (aspectRatio' rhs)"

text \<open>\<open>operator!=\<close>\<close>

definition Style_neq :: "Style \<Rightarrow> Style \<Rightarrow> bool" where
  "Style_neq lhs rhs \<longleftrightarrow> \<not> Style_eq lhs rhs"


section \<open>Well-formed parameters and states\<close>

text \<open>The cardinalities, the widths and the offsets of the ten fields, in declaration order.\<close>

definition field_counts :: "YGEnums \<Rightarrow> nat list" where
  "field_counts E =
     [count_YGDirection E, count_YGFlexDirection E, count_YGJustify E, count_YGAlign E,
      count_YGAlign E, count_YGAlign E, count_YGPositionType E, count_YGWrap E,
      count_YGOverflow E, count_YGDisplay E]"



text \<open>The first bit after the last field.\<close>

definition bits_used :: "YGEnums \<Rightarrow> nat" where
  "bits_used E = displayOffset E + bitWidthFn (count_YGDisplay E)"

text \<open>
  What the C++ declarations guarantee of the parameter: every enumeration has an
  enumerator, the two enumerators named in the constructor belong to \<open>YGAlign\<close>, and
  the ten fields lie inside the 32 bits of \<open>flags\<close>.
\<close>

definition YGEnums_wf :: "YGEnums \<Rightarrow> bool" where
  "YGEnums_wf E \<longleftrightarrow>
     list_all (\<lambda>c. 0 < c) (field_counts E) \<and>
     YGAlignFlexStart E < count_YGAlign E \<and>
     YGAlignStretch E < count_YGAlign E \<and>
     bits_used E \<le> 32"

text \<open>A choice of the parameter on which the theorems are evaluated.\<close>

definition example_enums :: YGEnums where
  "example_enums =
     \<lparr>count_YGDirection = 3, count_YGFlexDirection = 4, count_YGJustify = 6,
      count_YGAlign = 8, count_YGPositionType = 3, count_YGWrap = 3, count_YGOverflow = 3,
      count_YGDisplay = 2, YGAlignFlexStart = 1, YGAlignStretch = 4\<rparr>"


text \<open>
  The length of each container is fixed by its C++ type \<open>Values<Idx>\<close>; on the record it
  is an invariant of the state.
\<close>

definition Style_wf :: "Style \<Rightarrow> bool" where
  "Style_wf s \<longleftrightarrow>
     length (margin' s) = count_YGEdge \<and>
     length (position' s) = count_YGEdge \<and>
     length (padding' s) = count_YGEdge \<and>
     length (border' s) = count_YGEdge \<and>
     length (gap' s) = count_YGGutter \<and>
     length (dimensions' s) = count_YGDimension \<and>
     length (minDimensions' s) = count_YGDimension \<and>
     length (maxDimensions' s) = count_YGDimension"


section \<open>Properties and writes\<close>

text \<open>
  To speak about "every property" and "a set of property writes": a name for each
  property that the accessors expose (a slot of a container is a property of its own),
  the value read from it through the const accessor, and a write through the non-const one.
\<close>

datatype Property =
    Packed PackedProp
  | Scalar FloatMember
  | FlexBasis
  | Slot ValuesMember nat

datatype PropertyValue =
    Ordinal nat
  | Optional YGFloatOptional
  | Length CompactValue

datatype Write =
    SetPacked PackedProp nat
  | SetScalar FloatMember YGFloatOptional
  | SetFlexBasis CompactValue
  | SetSlot ValuesMember nat CompactValue

fun written :: "Write \<Rightarrow> Property" where
  "written (SetPacked p x) = Packed p"
| "written (SetScalar m v) = Scalar m"
| "written (SetFlexBasis v) = FlexBasis"
| "written (SetSlot m i v) = Slot m i"

fun written_value :: "Write \<Rightarrow> PropertyValue" where
  "written_value (SetPacked p x) = Ordinal x"
| "written_value (SetScalar m v) = Optional v"
| "written_value (SetFlexBasis v) = Length v"
| "written_value (SetSlot m i v) = Length v"

fun apply_write :: "YGEnums \<Rightarrow> Write \<Rightarrow> Style \<Rightarrow> Style" where
  "apply_write E (SetPacked p x) s = PackedProp_assign E p s x"
| "apply_write E (SetScalar m v) s = Ref_assign m s v"
| "apply_write E (SetFlexBasis v) s = Ref_flexBasis_assign s v"
| "apply_write E (SetSlot m i v) s = IdxRef_Ref_assign m s i v"

fun read_property :: "YGEnums \<Rightarrow> Property \<Rightarrow> Style \<Rightarrow> PropertyValue" where
  "read_property E (Packed p) s = Ordinal (PackedProp_get E p s)"
| "read_property E (Scalar m) s = Optional (FloatMember_const m s)"
| "read_property E FlexBasis s = Length (flexBasis s)"
| "read_property E (Slot m i) s = Length (Values_get (ValuesMember_const m s) i)"

text \<open>
  The legal domain of a write: the ordinal of an enumerator of the property's enumeration,
  an index of the container's index type. Any number is legal.
\<close>

fun valid_property :: "Property \<Rightarrow> bool" where
  "valid_property (Slot m i) = (i < ValuesMember_size m)"
| "valid_property (Packed p) = True"
| "valid_property (Scalar m) = True"
| "valid_property FlexBasis = True"

fun valid_write :: "YGEnums \<Rightarrow> Write \<Rightarrow> bool" where
  "valid_write E (SetPacked p x) = (x < PackedProp_count E p)"
| "valid_write E (SetScalar m v) = True"
| "valid_write E (SetFlexBasis v) = True"
| "valid_write E (SetSlot m i v) = (i < ValuesMember_size m)"
section \<open>The widths and offsets of the packed fields\<close>

lemma log2ceilFn_0: "log2ceilFn 0 = 0"
  by (simp add: log2ceilFn.simps [of 0])

lemma log2ceilFn_pos: "0 < n \<Longrightarrow> log2ceilFn n = Suc (log2ceilFn (n div 2))"
  by (simp add: log2ceilFn.simps [of n])

lemma log2ceilFn_upper: "n < 2 ^ log2ceilFn n"
proof (induction n rule: log2ceilFn.induct)
  case (1 n)
  show ?case
  proof (cases "n < 1")
    case True
    then show ?thesis by (simp add: log2ceilFn_0)
  next
    case False
    with 1 have "n div 2 < 2 ^ log2ceilFn (n div 2)" by simp
    then have "n < 2 * 2 ^ log2ceilFn (n div 2)" by linarith
    with False show ?thesis by (simp add: log2ceilFn_pos)
  qed
qed


lemma bitWidthFn_covers: "0 < cnt \<Longrightarrow> cnt \<le> 2 ^ bitWidthFn cnt"
  using log2ceilFn_upper [of "cnt - 1"] by (simp add: bitWidthFn_def)


lemma ordinal_fits: "v < cnt \<Longrightarrow> v < 2 ^ bitWidthFn cnt"
  using bitWidthFn_covers [of cnt] by simp


lemmas offset_defs =
  directionOffset_def flexdirectionOffset_def justifyContentOffset_def alignContentOffset_def
  alignItemsOffset_def alignSelfOffset_def positionTypeOffset_def flexWrapOffset_def
  overflowOffset_def displayOffset_def







section \<open>Reading and writing one packed field\<close>

lemma bit_setEnumData:
  "bit (setEnumData c f off v) n \<longleftrightarrow>
     n < 32 \<and> ((bit f n \<and> \<not> (off \<le> n \<and> n - off < bitWidthFn c)) \<or> (off \<le> n \<and> bit v (n - off)))"
  by (auto simp add: setEnumData_def bit_simps dest: bit_imp_le_length)

lemma bit_field:
  "bit (drop_bit off (f :: 32 word) AND mask w) n \<longleftrightarrow> n < w \<and> bit f (off + n)"
  by (auto simp add: bit_simps dest: bit_imp_le_length)

lemma nat_bit_bound: "v < 2 ^ w \<Longrightarrow> bit (v :: nat) n \<Longrightarrow> n < w"
  by (metis bit_take_bit_iff take_bit_nat_eq_self)

lemma get_set_same:
  assumes "v < 2 ^ bitWidthFn c" "off + bitWidthFn c \<le> 32"
  shows "getEnumData c (setEnumData c f off v) off = v"
proof -
  have "drop_bit off (setEnumData c f off v) AND mask (bitWidthFn c) = (of_nat v :: 32 word)"
  proof (rule bit_eqI)
    fix n
    show "bit (drop_bit off (setEnumData c f off v) AND mask (bitWidthFn c)) n = bit (of_nat v :: 32 word) n"
      using assms nat_bit_bound [OF assms(1), of n]
      by (auto simp add: bit_field bit_setEnumData bit_of_nat_iff)
  qed
  moreover have "v < 2 ^ 32"
    using assms by (meson less_le_trans power_increasing one_le_numeral add_leD2)
  ultimately show ?thesis
    by (simp add: getEnumData_def unat_of_nat)
qed

lemma get_set_other:
  assumes "v < 2 ^ bitWidthFn c" "off + bitWidthFn c \<le> off' \<or> off' + bitWidthFn c' \<le> off"
  shows "getEnumData c' (setEnumData c f off v) off' = getEnumData c' f off'"
proof -
  have "drop_bit off' (setEnumData c f off v) AND mask (bitWidthFn c')
      = drop_bit off' f AND mask (bitWidthFn c')"
  proof (rule bit_eqI)
    fix n
    show "bit (drop_bit off' (setEnumData c f off v) AND mask (bitWidthFn c')) n
        = bit (drop_bit off' f AND mask (bitWidthFn c')) n"
      using assms nat_bit_bound [OF assms(1), of "off' + n - off"]
      by (auto simp add: bit_field bit_setEnumData dest: bit_imp_le_length)
  qed
  then show ?thesis
    by (simp add: getEnumData_def)
qed

lemma set_set_commute:
  assumes "v < 2 ^ bitWidthFn c" "v' < 2 ^ bitWidthFn c'"
    "off + bitWidthFn c \<le> off' \<or> off' + bitWidthFn c' \<le> off"
  shows "setEnumData c' (setEnumData c f off v) off' v' = setEnumData c (setEnumData c' f off' v') off v"
proof (rule bit_eqI)
  fix n
  show "bit (setEnumData c' (setEnumData c f off v) off' v') n
      = bit (setEnumData c (setEnumData c' f off' v') off v) n"
    using assms nat_bit_bound [OF assms(1), of "n - off"] nat_bit_bound [OF assms(2), of "n - off'"]
    by (auto simp add: bit_setEnumData)
qed

text \<open>The fields of two different properties do not overlap, and each ends before bits_used.\<close>

lemma fields_disjoint:
  "p \<noteq> q \<Longrightarrow>
     snd (BitfieldRef_of E p) + bitWidthFn (fst (BitfieldRef_of E p)) \<le> snd (BitfieldRef_of E q)
   \<or> snd (BitfieldRef_of E q) + bitWidthFn (fst (BitfieldRef_of E q)) \<le> snd (BitfieldRef_of E p)"
  by (cases p; cases q; simp add: offset_defs)

lemma field_inside:
  "snd (BitfieldRef_of E p) + bitWidthFn (fst (BitfieldRef_of E p)) \<le> bits_used E"
  by (cases p; simp add: offset_defs bits_used_def)

lemma PackedProp_get_unfold:
  "PackedProp_get E p s = getEnumData (fst (BitfieldRef_of E p)) (flags s) (snd (BitfieldRef_of E p))"
  by (cases p)
    (simp_all add: direction_def flexDirection_def justifyContent_def alignContent_def
      alignItems_def alignSelf_def positionType_def flexWrap_def overflow_def display_def)

lemma flags_PackedProp_assign:
  "flags (PackedProp_assign E p s x)
     = setEnumData (fst (BitfieldRef_of E p)) (flags s) (snd (BitfieldRef_of E p)) x"
  by (simp add: PackedProp_assign_def BitfieldRef_assign_def)

lemma PackedProp_get_assign_same:
  assumes "bits_used E \<le> 32" "x < PackedProp_count E p"
  shows "PackedProp_get E p (PackedProp_assign E p s x) = x"
proof -
  have "x < 2 ^ bitWidthFn (fst (BitfieldRef_of E p))"
    using assms(2) by (simp add: PackedProp_count_def ordinal_fits)
  moreover have "snd (BitfieldRef_of E p) + bitWidthFn (fst (BitfieldRef_of E p)) \<le> 32"
    using field_inside [of E p] assms(1) by simp
  ultimately show ?thesis
    by (simp add: PackedProp_get_unfold flags_PackedProp_assign get_set_same)
qed

lemma PackedProp_get_assign_other:
  assumes "x < PackedProp_count E p" "q \<noteq> p"
  shows "PackedProp_get E q (PackedProp_assign E p s x) = PackedProp_get E q s"
proof -
  have "x < 2 ^ bitWidthFn (fst (BitfieldRef_of E p))"
    using assms(1) by (simp add: PackedProp_count_def ordinal_fits)
  moreover note fields_disjoint [of p q E]
  ultimately show ?thesis
    using assms(2) by (simp add: PackedProp_get_unfold flags_PackedProp_assign get_set_other)
qed

lemma PackedProp_read_unfold:
  "PackedProp_read E p s = getEnumData (fst (BitfieldRef_of E p)) (flags s) (snd (BitfieldRef_of E p))"
  by (simp add: PackedProp_read_def BitfieldRef_read_def)

text \<open>
  Claim C2. For every packed property p and every ordinal v below the cardinality of its
  enumeration: after assigning v to p, both the const accessor and the proxy read v, and
  every other packed property reads what it read before.
\<close>

theorem packed_field_isolation:
  assumes "YGEnums_wf E" "v < PackedProp_count E p"
  shows "PackedProp_get E p (PackedProp_assign E p s v) = v
    \<and> PackedProp_read E p (PackedProp_assign E p s v) = v
    \<and> (\<forall>q. q \<noteq> p \<longrightarrow> PackedProp_get E q (PackedProp_assign E p s v) = PackedProp_get E q s)"
proof -
  from assms(1) have fit: "bits_used E \<le> 32"
    by (simp add: YGEnums_wf_def)
  have same: "PackedProp_get E p (PackedProp_assign E p s v) = v"
    using fit assms(2) by (rule PackedProp_get_assign_same)
  moreover have "PackedProp_read E p (PackedProp_assign E p s v) = v"
    using same by (simp add: PackedProp_read_unfold PackedProp_get_unfold)
  moreover have "PackedProp_get E q (PackedProp_assign E p s v) = PackedProp_get E q s"
    if "q \<noteq> p" for q
    using assms(2) that by (rule PackedProp_get_assign_other)
  ultimately show ?thesis by blast
qed

theorem packed_field_isolation_witness:
  "YGEnums_wf example_enums \<and> 5 < PackedProp_count example_enums JustifyContent
   \<and> PackedProp_get example_enums JustifyContent
        (PackedProp_assign example_enums JustifyContent (Style_new example_enums) 5) = 5
   \<and> AlignItems \<noteq> JustifyContent
   \<and> PackedProp_get example_enums AlignItems
        (PackedProp_assign example_enums JustifyContent (Style_new example_enums) 5)
      = PackedProp_get example_enums AlignItems (Style_new example_enums)"
proof -
  have wf: "YGEnums_wf example_enums"
    by code_simp
  have ord: "5 < PackedProp_count example_enums JustifyContent"
    by code_simp
  from packed_field_isolation [OF wf ord, of "Style_new example_enums"] wf ord
  show ?thesis by (simp del: PackedProp_get.simps)
qed
section \<open>The default-constructed Style\<close>

lemma getEnumData_zero: "getEnumData c 0 off = 0"
  by (simp add: getEnumData_def)

lemma PackedProp_assign_update:
  "PackedProp_assign E p s x
     = s\<lparr>flags := setEnumData (fst (BitfieldRef_of E p)) (flags s) (snd (BitfieldRef_of E p)) x\<rparr>"
  by (simp add: PackedProp_assign_def BitfieldRef_assign_def)

lemma YGEdge_ord_less: "YGEdge_ord e < count_YGEdge"
  by (cases e) (simp_all add: count_YGEdge_def)

lemma YGDimension_ord_less: "YGDimension_ord d < count_YGDimension"
  by (cases d) (simp_all add: count_YGDimension_def)

lemma YGGutter_ord_less: "YGGutter_ord g < count_YGGutter"
  by (cases g) (simp_all add: count_YGGutter_def)

lemma Values_get_default: "i < n \<Longrightarrow> Values_get (Values_default n) i = ofUndefined"
  by (simp add: Values_get_def Values_default_def)

lemma Values_get_fill: "i < n \<Longrightarrow> Values_get (Values_fill n v) i = v"
  by (simp add: Values_get_def Values_fill_def)

lemma Style_new_members:
  "flex' (Style_new E) = YGFloatOptional_default"
  "flexGrow' (Style_new E) = YGFloatOptional_default"
  "flexShrink' (Style_new E) = YGFloatOptional_default"
  "aspectRatio' (Style_new E) = YGFloatOptional_default"
  "flexBasis' (Style_new E) = ofAuto"
  "margin' (Style_new E) = Values_default count_YGEdge"
  "position' (Style_new E) = Values_default count_YGEdge"
  "padding' (Style_new E) = Values_default count_YGEdge"
  "border' (Style_new E) = Values_default count_YGEdge"
  "gap' (Style_new E) = Values_default count_YGGutter"
  "dimensions' (Style_new E) = Values_fill count_YGDimension ofAuto"
  "minDimensions' (Style_new E) = Values_default count_YGDimension"
  "maxDimensions' (Style_new E) = Values_default count_YGDimension"
  by (simp_all add: Style_new_def PackedProp_assign_update Style_members_def)

lemma Style_new_packed:
  assumes "YGEnums_wf E"
  shows "PackedProp_get E p (Style_new E)
     = (if p = AlignItems then YGAlignStretch E
        else if p = AlignContent then YGAlignFlexStart E else 0)"
proof -
  from assms have fit: "bits_used E \<le> 32"
    and start: "YGAlignFlexStart E < PackedProp_count E AlignContent"
    and stretch: "YGAlignStretch E < PackedProp_count E AlignItems"
    by (simp_all add: YGEnums_wf_def PackedProp_count_def)
  let ?s1 = "PackedProp_assign E AlignContent Style_members (YGAlignFlexStart E)"
  have new: "Style_new E = PackedProp_assign E AlignItems ?s1 (YGAlignStretch E)"
    by (simp add: Style_new_def)
  show ?thesis
  proof (cases "p = AlignItems")
    case True
    then show ?thesis
      using PackedProp_get_assign_same [OF fit stretch, of ?s1] unfolding new by simp
  next
    case items: False
    then have step: "PackedProp_get E p (Style_new E) = PackedProp_get E p ?s1"
      using PackedProp_get_assign_other [OF stretch, of p ?s1] unfolding new by simp
    show ?thesis
    proof (cases "p = AlignContent")
      case True
      then show ?thesis
        using PackedProp_get_assign_same [OF fit start, of Style_members] step by simp
    next
      case False
      then have "PackedProp_get E p ?s1 = PackedProp_get E p Style_members"
        using PackedProp_get_assign_other [OF start, of p Style_members] by simp
      also have "\<dots> = 0"
        by (simp add: PackedProp_get_unfold Style_members_def getEnumData_zero)
      finally show ?thesis
        using items False step by simp
    qed
  qed
qed

text \<open>
  Claim C1. A default-constructed Style reads alignContent = FlexStart and
  alignItems = Stretch; flexBasis and both slots of dimensions have unit Auto; the other
  eight packed properties read ordinal 0; every slot of margin, position, padding, border,
  gap, minDimensions and maxDimensions is Undefined; flex, flexGrow, flexShrink and
  aspectRatio are absent.
\<close>

theorem default_constructed_Style:
  assumes "YGEnums_wf E"
  shows "alignContent E (Style_new E) = YGAlignFlexStart E
    \<and> alignItems E (Style_new E) = YGAlignStretch E
    \<and> CompactValue_unit (flexBasis (Style_new E)) = YGUnitAuto
    \<and> CompactValue_unit (Values_get (dimensions (Style_new E)) (YGDimension_ord YGDimensionWidth))
        = YGUnitAuto
    \<and> CompactValue_unit (Values_get (dimensions (Style_new E)) (YGDimension_ord YGDimensionHeight))
        = YGUnitAuto
    \<and> direction E (Style_new E) = 0
    \<and> flexDirection E (Style_new E) = 0
    \<and> justifyContent E (Style_new E) = 0
    \<and> alignSelf E (Style_new E) = 0
    \<and> positionType E (Style_new E) = 0
    \<and> flexWrap E (Style_new E) = 0
    \<and> overflow E (Style_new E) = 0
    \<and> display E (Style_new E) = 0
    \<and> (\<forall>e. Values_get (margin (Style_new E)) (YGEdge_ord e) = ofUndefined
          \<and> Values_get (position (Style_new E)) (YGEdge_ord e) = ofUndefined
          \<and> Values_get (padding (Style_new E)) (YGEdge_ord e) = ofUndefined
          \<and> Values_get (border (Style_new E)) (YGEdge_ord e) = ofUndefined)
    \<and> (\<forall>g. Values_get (gap (Style_new E)) (YGGutter_ord g) = ofUndefined)
    \<and> (\<forall>d. Values_get (minDimensions (Style_new E)) (YGDimension_ord d) = ofUndefined
          \<and> Values_get (maxDimensions (Style_new E)) (YGDimension_ord d) = ofUndefined)
    \<and> isUndefined (flex (Style_new E))
    \<and> isUndefined (flexGrow (Style_new E))
    \<and> isUndefined (flexShrink (Style_new E))
    \<and> isUndefined (aspectRatio (Style_new E))"
proof -
  note packed = Style_new_packed [OF assms]
  have "alignContent E (Style_new E) = YGAlignFlexStart E"
    "alignItems E (Style_new E) = YGAlignStretch E"
    "direction E (Style_new E) = 0" "flexDirection E (Style_new E) = 0"
    "justifyContent E (Style_new E) = 0" "alignSelf E (Style_new E) = 0"
    "positionType E (Style_new E) = 0" "flexWrap E (Style_new E) = 0"
    "overflow E (Style_new E) = 0" "display E (Style_new E) = 0"
    using packed [of AlignContent] packed [of AlignItems] packed [of Direction]
      packed [of FlexDirection] packed [of JustifyContent] packed [of AlignSelf]
      packed [of PositionType] packed [of FlexWrap] packed [of Overflow] packed [of Display]
    by simp_all
  moreover have "CompactValue_unit (flexBasis (Style_new E)) = YGUnitAuto"
    by (simp add: flexBasis_def Style_new_members ofAuto_def)
  moreover have "CompactValue_unit (Values_get (dimensions (Style_new E)) (YGDimension_ord d))
      = YGUnitAuto" for d
    by (simp add: dimensions_def Style_new_members Values_get_fill YGDimension_ord_less ofAuto_def)
  moreover have "Values_get (margin (Style_new E)) (YGEdge_ord e) = ofUndefined"
    "Values_get (position (Style_new E)) (YGEdge_ord e) = ofUndefined"
    "Values_get (padding (Style_new E)) (YGEdge_ord e) = ofUndefined"
    "Values_get (border (Style_new E)) (YGEdge_ord e) = ofUndefined" for e
    by (simp_all add: margin_def position_def padding_def border_def Style_new_members
        Values_get_default YGEdge_ord_less)
  moreover have "Values_get (gap (Style_new E)) (YGGutter_ord g) = ofUndefined" for g
    by (simp add: gap_def Style_new_members Values_get_default YGGutter_ord_less)
  moreover have "Values_get (minDimensions (Style_new E)) (YGDimension_ord d) = ofUndefined"
    "Values_get (maxDimensions (Style_new E)) (YGDimension_ord d) = ofUndefined" for d
    by (simp_all add: minDimensions_def maxDimensions_def Style_new_members Values_get_default
        YGDimension_ord_less)
  moreover have "isUndefined (flex (Style_new E))" "isUndefined (flexGrow (Style_new E))"
    "isUndefined (flexShrink (Style_new E))" "isUndefined (aspectRatio (Style_new E))"
    by (simp_all add: flex_def flexGrow_def flexShrink_def aspectRatio_def Style_new_members
        isUndefined_def YGFloatOptional_default_def)
  ultimately show ?thesis
    by (simp only: simp_thms)
qed

theorem default_constructed_Style_witness:
  "YGEnums_wf example_enums
   \<and> alignContent example_enums (Style_new example_enums) = 1
   \<and> alignItems example_enums (Style_new example_enums) = 4
   \<and> justifyContent example_enums (Style_new example_enums) = 0
   \<and> Values_get (margin (Style_new example_enums)) (YGEdge_ord YGEdgeAll) = ofUndefined
   \<and> isUndefined (flexGrow (Style_new example_enums))"
proof -
  have wf: "YGEnums_wf example_enums"
    by code_simp
  have "YGAlignFlexStart example_enums = 1" "YGAlignStretch example_enums = 4"
    by (simp_all add: example_enums_def)
  with default_constructed_Style [OF wf] wf show ?thesis
    by (simp del: YGEdge_ord.simps)
qed
section \<open>Const accessors and proxies\<close>

lemma ValuesMember_const_unfold: "ValuesMember_const m s = ValuesMember_get m s"
  by (cases m)
    (simp_all add: margin_def position_def padding_def border_def gap_def dimensions_def
      minDimensions_def maxDimensions_def)

lemma FloatMember_const_unfold: "FloatMember_const m s = FloatMember_get m s"
  by (cases m) (simp_all add: flex_def flexGrow_def flexShrink_def aspectRatio_def)

text \<open>
  Claim C10. On every Style the const accessor and the proxy returned by the non-const
  accessor read the same value: for a packed property both decode the same field of the
  flags word; for a container the const \<open>operator[]\<close> and the conversion of
  \<open>IdxRef::Ref\<close> return the same slot; likewise for the scalars and flexBasis.
\<close>

theorem const_and_proxy_reads_agree:
  "PackedProp_get E p s = PackedProp_read E p s
   \<and> Values_get (ValuesMember_const m s) i = IdxRef_Ref_read m s i
   \<and> IdxRef_index_const m s i = IdxRef_Ref_read m s i
   \<and> ValuesMember_const m s = IdxRef_read m s
   \<and> FloatMember_const f s = Ref_read f s
   \<and> flexBasis s = Ref_flexBasis_read s"
  by (simp add: PackedProp_get_unfold PackedProp_read_unfold ValuesMember_const_unfold
      FloatMember_const_unfold IdxRef_Ref_read_def IdxRef_index_const_def IdxRef_read_def
      Ref_read_def flexBasis_def Ref_flexBasis_read_def)
section \<open>Writing one slot of a container\<close>

lemma ValuesMember_get_put:
  "ValuesMember_get m' (ValuesMember_put m vs s) = (if m' = m then vs else ValuesMember_get m' s)"
  by (cases m; cases m'; simp)

lemma ValuesMember_length: "Style_wf s \<Longrightarrow> length (ValuesMember_get m s) = ValuesMember_size m"
  by (cases m) (simp_all add: Style_wf_def)

lemma IdxRef_Ref_read_assign:
  "IdxRef_Ref_read m' (IdxRef_Ref_assign m s i v) j
     = (if m' = m then (ValuesMember_get m s)[i := v] ! j else IdxRef_Ref_read m' s j)"
  by (simp add: IdxRef_Ref_read_def IdxRef_Ref_assign_def ValuesMember_get_put Values_get_def
      Values_set_def)

text \<open>
  Claim C3. For every container member m and every index i of its index type: after
  assigning v to slot i, slot i reads v, every other slot of m and every slot of every
  other container reads what it read before; in an edge-indexed container, assigning the
  slot of the "all" edge leaves the slot of the "left" edge as it was.
\<close>

theorem indexed_container_isolation:
  assumes "Style_wf s" "i < ValuesMember_size m"
  shows "IdxRef_Ref_read m (IdxRef_Ref_assign m s i v) i = v
    \<and> (\<forall>j. j < ValuesMember_size m \<and> j \<noteq> i \<longrightarrow>
          IdxRef_Ref_read m (IdxRef_Ref_assign m s i v) j = IdxRef_Ref_read m s j)
    \<and> (\<forall>m' j. m' \<noteq> m \<longrightarrow>
          IdxRef_Ref_read m' (IdxRef_Ref_assign m s i v) j = IdxRef_Ref_read m' s j)
    \<and> (ValuesMember_size m = count_YGEdge \<longrightarrow>
          IdxRef_Ref_read m (IdxRef_Ref_assign m s (YGEdge_ord YGEdgeAll) v) (YGEdge_ord YGEdgeLeft)
            = IdxRef_Ref_read m s (YGEdge_ord YGEdgeLeft))"
  using assms ValuesMember_length [OF assms(1), of m]
  by (simp add: IdxRef_Ref_read_assign) (simp add: IdxRef_Ref_read_def Values_get_def)

theorem indexed_container_isolation_witness:
  "Style_wf (Style_new example_enums) \<and> YGEdge_ord YGEdgeAll < ValuesMember_size Ptr_margin
   \<and> IdxRef_Ref_read Ptr_margin
        (IdxRef_Ref_assign Ptr_margin (Style_new example_enums) (YGEdge_ord YGEdgeAll) (ofPoints 5))
        (YGEdge_ord YGEdgeAll) = ofPoints 5
   \<and> ValuesMember_size Ptr_margin = count_YGEdge
   \<and> IdxRef_Ref_read Ptr_margin
        (IdxRef_Ref_assign Ptr_margin (Style_new example_enums) (YGEdge_ord YGEdgeAll) (ofPoints 5))
        (YGEdge_ord YGEdgeLeft) = ofUndefined"
proof -
  have wf: "Style_wf (Style_new example_enums)"
    by code_simp
  have idx: "YGEdge_ord YGEdgeAll < ValuesMember_size Ptr_margin"
    by code_simp
  have left: "IdxRef_Ref_read Ptr_margin (Style_new example_enums) (YGEdge_ord YGEdgeLeft)
      = ofUndefined"
    by code_simp
  from indexed_container_isolation [OF wf idx, of "ofPoints 5"] wf idx left
  show ?thesis
    by (simp del: YGEdge_ord.simps)
qed
section \<open>Equality\<close>

lemma CompactValue_eq_iff: "CompactValue_eq a b \<longleftrightarrow> a = b"
  by (cases a; cases b; simp add: CompactValue_eq_def)

lemma YGFloatOptional_eq_iff: "YGFloatOptional_eq a b \<longleftrightarrow> a = b"
  by (cases a; cases b; simp)

lemma Values_eq_iff: "Values_eq a b \<longleftrightarrow> a = b"
  by (simp add: Values_eq_def CompactValue_eq_iff [abs_def] list.rel_eq)

lemma Style_eq_iff: "Style_eq s t \<longleftrightarrow> s = t" for s t :: Style
  by (cases s; cases t) (auto simp add: Style_eq_def CompactValue_eq_iff YGFloatOptional_eq_iff Values_eq_iff)

lemma is_nan_YGUndefined: "is_nan YGUndefined"
  by (simp add: is_nan_def YGUndefined_def float_exponent_def float_fraction_def)

text \<open>
  Claim C5. Equality of Style is reflexive: every Style equals itself, in particular the
  default-constructed one and one whose optional scalar and whose CompactValue member
  carry a not-a-number pattern.
\<close>

theorem Style_eq_reflexive:
  "Style_eq s s
   \<and> Style_eq (Style_new E) (Style_new E)
   \<and> is_nan YGUndefined
   \<and> Style_eq (s\<lparr>flexGrow' := Some YGUndefined, flexBasis' := ofPoints YGUndefined\<rparr>)
        (s\<lparr>flexGrow' := Some YGUndefined, flexBasis' := ofPoints YGUndefined\<rparr>)"
  by (simp add: Style_eq_iff is_nan_YGUndefined)

text \<open>
  Claim C8. Equality of CompactValue: Undefined equals Undefined and Auto equals Auto; two
  Points, and two Percents, are equal exactly when their payloads are the same bits; in
  general the kinds are compared first and the payloads only for Point and Percent; a
  Point or Percent whose payload is a not-a-number pattern equals itself.
\<close>

theorem CompactValue_eq_bitwise:
  "CompactValue_eq ofUndefined ofUndefined
   \<and> CompactValue_eq ofAuto ofAuto
   \<and> CompactValue_eq (ofPoints x) (ofPoints y) = (x = y)
   \<and> CompactValue_eq (ofPercent x) (ofPercent y) = (x = y)
   \<and> CompactValue_eq a b
       = (CompactValue_unit a = CompactValue_unit b
          \<and> (if CompactValue_unit a = YGUnitPoint \<or> CompactValue_unit a = YGUnitPercent
              then CompactValue_value a = CompactValue_value b else True))
   \<and> is_nan YGUndefined
   \<and> CompactValue_eq (ofPoints YGUndefined) (ofPoints YGUndefined)
   \<and> CompactValue_eq (ofPercent YGUndefined) (ofPercent YGUndefined)"
  by (simp add: CompactValue_eq_def ofUndefined_def ofAuto_def ofPoints_def ofPercent_def
      is_nan_YGUndefined)

text \<open>
  Claim C7. For every finite x, \<open>ofPoints x\<close> has unit Point and value x, and
  \<open>ofPercent x\<close> has unit Percent and value x. Converting a CompactValue to the
  boundary representation and back returns it; converting a boundary value to a
  CompactValue and back keeps its kind, and its number when the kind is Point or Percent.
\<close>

theorem CompactValue_roundtrip:
  "(is_finite x \<longrightarrow>
      CompactValue_unit (ofPoints x) = YGUnitPoint \<and> CompactValue_value (ofPoints x) = x
      \<and> CompactValue_unit (ofPercent x) = YGUnitPercent \<and> CompactValue_value (ofPercent x) = x)
   \<and> CompactValue_of_YGValue (CompactValue_to_YGValue c) = c
   \<and> YGValue_unit (CompactValue_to_YGValue (CompactValue_of_YGValue v)) = YGValue_unit v
   \<and> (YGValue_unit v = YGUnitPoint \<or> YGValue_unit v = YGUnitPercent \<longrightarrow>
        YGValue_value (CompactValue_to_YGValue (CompactValue_of_YGValue v)) = YGValue_value v)"
  by (cases c; cases "YGValue_unit v")
    (simp_all add: ofPoints_def ofPercent_def ofUndefined_def ofAuto_def
      CompactValue_to_YGValue_def CompactValue_of_YGValue_def)

theorem CompactValue_roundtrip_witness:
  "is_finite 1092616192
   \<and> CompactValue_unit (ofPoints 1092616192) = YGUnitPoint
   \<and> CompactValue_value (ofPoints 1092616192) = 1092616192
   \<and> YGValue_unit \<lparr>YGValue_value = 1092616192, YGValue_unit = YGUnitPercent\<rparr> = YGUnitPercent
   \<and> YGValue_value (CompactValue_to_YGValue (CompactValue_of_YGValue
        \<lparr>YGValue_value = 1092616192, YGValue_unit = YGUnitPercent\<rparr>)) = 1092616192"
proof -
  have fin: "is_finite 1092616192"
    by (simp add: is_finite_def float_exponent_def)
  from CompactValue_roundtrip [of 1092616192 CompactAuto
      "\<lparr>YGValue_value = 1092616192, YGValue_unit = YGUnitPercent\<rparr>"] fin
  show ?thesis by simp
qed
section \<open>Writes\<close>

lemma FloatMember_get_put:
  "FloatMember_get m' (FloatMember_put m v s) = (if m' = m then v else FloatMember_get m' s)"
  by (cases m; cases m'; simp)

lemma apply_write_Style_wf: "Style_wf s \<Longrightarrow> Style_wf (apply_write E w s)"
proof (cases w)
  case (SetPacked p x)
  then show "Style_wf s \<Longrightarrow> ?thesis"
    by (simp add: PackedProp_assign_update Style_wf_def)
next
  case (SetScalar m v)
  then show "Style_wf s \<Longrightarrow> ?thesis"
    by (cases m) (simp_all add: Ref_assign_def Style_wf_def)
next
  case (SetFlexBasis v)
  then show "Style_wf s \<Longrightarrow> ?thesis"
    by (simp add: Ref_flexBasis_assign_def Style_wf_def)
next
  case (SetSlot m i v)
  then show "Style_wf s \<Longrightarrow> ?thesis"
    by (cases m) (simp_all add: IdxRef_Ref_assign_def Values_set_def Style_wf_def)
qed

lemma Style_new_wf: "Style_wf (Style_new E)"
  by (simp add: Style_wf_def Style_new_members Values_default_def Values_fill_def)

lemma read_after_write:
  assumes "bits_used E \<le> 32" "Style_wf s" "valid_write E w"
  shows "read_property E (written w) (apply_write E w s) = written_value w"
proof (cases w)
  case (SetPacked p x)
  with assms show ?thesis
    by (simp add: PackedProp_get_assign_same)
next
  case (SetScalar m v)
  then show ?thesis
    by (simp add: FloatMember_const_unfold Ref_assign_def FloatMember_get_put)
next
  case (SetFlexBasis v)
  then show ?thesis
    by (simp add: flexBasis_def Ref_flexBasis_assign_def)
next
  case (SetSlot m i v)
  with assms ValuesMember_length [OF assms(2), of m] show ?thesis
    by (simp add: ValuesMember_const_unfold IdxRef_Ref_assign_def ValuesMember_get_put
        Values_get_def Values_set_def)
qed

lemma scalar_unwritten:
  "written w \<noteq> Scalar m \<Longrightarrow> FloatMember_const m (apply_write E w s) = FloatMember_const m s"
proof (cases w)
  case (SetPacked p x)
  then show ?thesis
    by (cases m) (simp_all add: FloatMember_const_unfold PackedProp_assign_update)
next
  case (SetScalar m' v)
  then show "written w \<noteq> Scalar m \<Longrightarrow> ?thesis"
    by (auto simp add: FloatMember_const_unfold Ref_assign_def FloatMember_get_put)
next
  case (SetFlexBasis v)
  then show ?thesis
    by (cases m) (simp_all add: FloatMember_const_unfold Ref_flexBasis_assign_def)
next
  case (SetSlot m' i v)
  then show ?thesis
    by (cases m; cases m') (simp_all add: FloatMember_const_unfold IdxRef_Ref_assign_def)
qed

lemma scalar_never_written:
  "list_all (\<lambda>w. written w \<noteq> Scalar m) ws \<Longrightarrow>
     FloatMember_const m (fold (apply_write E) ws s) = FloatMember_const m s"
  by (induction ws arbitrary: s) (simp_all add: scalar_unwritten)

lemma Style_new_scalars: "isUndefined (FloatMember_const m (Style_new E))"
  by (cases m)
    (simp_all add: flex_def flexGrow_def flexShrink_def aspectRatio_def Style_new_members
      isUndefined_def YGFloatOptional_default_def)

text \<open>
  Claim C9. No accessor fails. A scalar that was never written reads as absent, on the
  default-constructed Style and after any writes to other properties. Every write inside
  its legal domain (an ordinal below the cardinality of the enumeration, an index of the
  container, any number) is accepted: the result is again a Style, and the property reads
  the value written.
\<close>

theorem accessors_total:
  "(list_all (\<lambda>w. written w \<noteq> Scalar m) ws \<longrightarrow>
      isUndefined (FloatMember_const m (fold (apply_write E) ws (Style_new E))))
   \<and> Style_wf (Style_new E)
   \<and> (YGEnums_wf E \<and> Style_wf s \<and> valid_write E w \<longrightarrow>
        Style_wf (apply_write E w s)
        \<and> read_property E (written w) (apply_write E w s) = written_value w)"
proof (intro conjI impI)
  show "isUndefined (FloatMember_const m (fold (apply_write E) ws (Style_new E)))"
    if "list_all (\<lambda>w. written w \<noteq> Scalar m) ws"
    using that by (simp add: scalar_never_written Style_new_scalars)
  show "Style_wf (Style_new E)"
    by (rule Style_new_wf)
  assume a: "YGEnums_wf E \<and> Style_wf s \<and> valid_write E w"
  then show "Style_wf (apply_write E w s)"
    by (simp add: apply_write_Style_wf)
  from a show "read_property E (written w) (apply_write E w s) = written_value w"
    by (simp add: read_after_write YGEnums_wf_def)
qed

theorem accessors_total_witness:
  "list_all (\<lambda>w. written w \<noteq> Scalar Ptr_flex)
      [SetScalar Ptr_flexGrow (Some 1065353216), SetSlot Ptr_margin 0 (ofPoints 1092616192)]
   \<and> isUndefined (flex (fold (apply_write example_enums)
        [SetScalar Ptr_flexGrow (Some 1065353216), SetSlot Ptr_margin 0 (ofPoints 1092616192)]
        (Style_new example_enums)))
   \<and> YGEnums_wf example_enums \<and> Style_wf (Style_new example_enums)
   \<and> is_finite 1065353216
   \<and> valid_write example_enums (SetScalar Ptr_flexGrow (Some 1065353216))
   \<and> flexGrow (apply_write example_enums (SetScalar Ptr_flexGrow (Some 1065353216))
        (Style_new example_enums)) = Some 1065353216"
proof -
  let ?ws = "[SetScalar Ptr_flexGrow (Some 1065353216), SetSlot Ptr_margin 0 (ofPoints 1092616192)]"
  note total = accessors_total [of Ptr_flex ?ws example_enums "Style_new example_enums"
      "SetScalar Ptr_flexGrow (Some 1065353216)"]
  have unwritten: "list_all (\<lambda>w. written w \<noteq> Scalar Ptr_flex) ?ws"
    by simp
  have wf: "YGEnums_wf example_enums"
    by code_simp
  have fin: "is_finite 1065353216"
    by (simp add: is_finite_def float_exponent_def)
  from total unwritten have "isUndefined (flex (fold (apply_write example_enums) ?ws
      (Style_new example_enums)))"
    by simp
  moreover from total wf have "Style_wf (Style_new example_enums)"
    "flexGrow (apply_write example_enums (SetScalar Ptr_flexGrow (Some 1065353216))
        (Style_new example_enums)) = Some 1065353216"
    by simp_all
  ultimately show ?thesis
    using unwritten wf fin by simp
qed
section \<open>Independent writes\<close>

lemma packed_writes_commute:
  assumes "p \<noteq> q" "x < PackedProp_count E p" "y < PackedProp_count E q"
  shows "PackedProp_assign E p (PackedProp_assign E q s y) x
       = PackedProp_assign E q (PackedProp_assign E p s x) y"
proof -
  have "x < 2 ^ bitWidthFn (fst (BitfieldRef_of E p))" "y < 2 ^ bitWidthFn (fst (BitfieldRef_of E q))"
    using assms(2,3) by (simp_all add: PackedProp_count_def ordinal_fits)
  then have "setEnumData (fst (BitfieldRef_of E p))
        (setEnumData (fst (BitfieldRef_of E q)) (flags s) (snd (BitfieldRef_of E q)) y)
        (snd (BitfieldRef_of E p)) x
      = setEnumData (fst (BitfieldRef_of E q))
        (setEnumData (fst (BitfieldRef_of E p)) (flags s) (snd (BitfieldRef_of E p)) x)
        (snd (BitfieldRef_of E q)) y"
    using fields_disjoint [OF assms(1), of E] by (intro set_set_commute) auto
  then show ?thesis
    by (simp add: PackedProp_assign_update)
qed

lemma slot_writes_commute:
  assumes "m \<noteq> m' \<or> i \<noteq> j"
  shows "IdxRef_Ref_assign m (IdxRef_Ref_assign m' s j v') i v
       = IdxRef_Ref_assign m' (IdxRef_Ref_assign m s i v) j v'"
  using assms
  by (cases m; cases m') (auto simp add: IdxRef_Ref_assign_def Values_set_def list_update_swap)

lemma scalar_packed_commute:
  "Ref_assign m (PackedProp_assign E q s y) v = PackedProp_assign E q (Ref_assign m s v) y"
  by (cases m) (simp_all add: PackedProp_assign_update Ref_assign_def)

lemma basis_packed_commute:
  "Ref_flexBasis_assign (PackedProp_assign E q s y) v
     = PackedProp_assign E q (Ref_flexBasis_assign s v) y"
  by (simp add: PackedProp_assign_update Ref_flexBasis_assign_def)

lemma slot_packed_commute:
  "IdxRef_Ref_assign m (PackedProp_assign E q s y) i v
     = PackedProp_assign E q (IdxRef_Ref_assign m s i v) y"
  by (cases m) (simp_all add: PackedProp_assign_update IdxRef_Ref_assign_def)

lemma scalar_writes_commute:
  "m \<noteq> m' \<Longrightarrow>
     Ref_assign m (Ref_assign m' s v') v = Ref_assign m' (Ref_assign m s v) v'"
  by (cases m; cases m') (simp_all add: Ref_assign_def)

lemma scalar_basis_commute:
  "Ref_assign m (Ref_flexBasis_assign s v') v = Ref_flexBasis_assign (Ref_assign m s v) v'"
  by (cases m) (simp_all add: Ref_assign_def Ref_flexBasis_assign_def)

lemma scalar_slot_commute:
  "Ref_assign m (IdxRef_Ref_assign m' s i v') v = IdxRef_Ref_assign m' (Ref_assign m s v) i v'"
  by (cases m; cases m') (simp_all add: Ref_assign_def IdxRef_Ref_assign_def)

lemma basis_slot_commute:
  "Ref_flexBasis_assign (IdxRef_Ref_assign m' s i v') v
     = IdxRef_Ref_assign m' (Ref_flexBasis_assign s v) i v'"
  by (cases m') (simp_all add: Ref_flexBasis_assign_def IdxRef_Ref_assign_def)

lemma writes_commute:
  assumes "written w \<noteq> written w'" "valid_write E w" "valid_write E w'"
  shows "apply_write E w (apply_write E w' s) = apply_write E w' (apply_write E w s)"
proof (cases w)
  case p: (SetPacked p x)
  show ?thesis
  proof (cases w')
    case (SetPacked q y)
    with p assms have "p \<noteq> q" "x < PackedProp_count E p" "y < PackedProp_count E q"
      by simp_all
    then show ?thesis
      unfolding p SetPacked apply_write.simps by (rule packed_writes_commute)
  next
    case (SetScalar m v)
    show ?thesis
      unfolding p SetScalar apply_write.simps by (simp only: scalar_packed_commute)
  next
    case (SetFlexBasis v)
    show ?thesis
      unfolding p SetFlexBasis apply_write.simps by (simp only: basis_packed_commute)
  next
    case (SetSlot m i v)
    show ?thesis
      unfolding p SetSlot apply_write.simps by (simp only: slot_packed_commute)
  qed
next
  case f: (SetScalar m v)
  show ?thesis
  proof (cases w')
    case (SetPacked q y)
    show ?thesis
      unfolding f SetPacked apply_write.simps by (simp only: scalar_packed_commute)
  next
    case (SetScalar m' v')
    with f assms(1) have "m \<noteq> m'"
      by simp
    then show ?thesis
      unfolding f SetScalar apply_write.simps by (rule scalar_writes_commute)
  next
    case (SetFlexBasis v')
    show ?thesis
      unfolding f SetFlexBasis apply_write.simps by (simp only: scalar_basis_commute)
  next
    case (SetSlot m' i v')
    show ?thesis
      unfolding f SetSlot apply_write.simps by (simp only: scalar_slot_commute)
  qed
next
  case b: (SetFlexBasis v)
  show ?thesis
  proof (cases w')
    case (SetPacked q y)
    show ?thesis
      unfolding b SetPacked apply_write.simps by (simp only: basis_packed_commute)
  next
    case (SetScalar m' v')
    show ?thesis
      unfolding b SetScalar apply_write.simps by (simp only: scalar_basis_commute)
  next
    case (SetFlexBasis v')
    with b assms(1) show ?thesis
      by simp
  next
    case (SetSlot m' i v')
    show ?thesis
      unfolding b SetSlot apply_write.simps by (simp only: basis_slot_commute)
  qed
next
  case c: (SetSlot m i v)
  show ?thesis
  proof (cases w')
    case (SetPacked q y)
    show ?thesis
      unfolding c SetPacked apply_write.simps by (simp only: slot_packed_commute)
  next
    case (SetScalar m' v')
    show ?thesis
      unfolding c SetScalar apply_write.simps by (simp only: scalar_slot_commute)
  next
    case (SetFlexBasis v')
    show ?thesis
      unfolding c SetFlexBasis apply_write.simps by (simp only: basis_slot_commute)
  next
    case (SetSlot m' j v')
    with c assms(1) have "m \<noteq> m' \<or> i \<noteq> j"
      by auto
    then show ?thesis
      unfolding c SetSlot apply_write.simps by (rule slot_writes_commute)
  qed
qed

lemma writes_any_order:
  assumes "list_all (valid_write E) ws" "distinct (map written ws)" "mset ws' = mset ws"
  shows "fold (apply_write E) ws' s = fold (apply_write E) ws s"
proof -
  have "apply_write E w \<circ> apply_write E w' = apply_write E w' \<circ> apply_write E w"
    if "w \<in> set ws" "w' \<in> set ws" for w w'
  proof (cases "w = w'")
    case True
    then show ?thesis by simp
  next
    case False
    with that assms(2) have "written w \<noteq> written w'"
      by (meson distinct_map inj_onD)
    moreover from that assms(1) have "valid_write E w" "valid_write E w'"
      by (simp_all add: list_all_iff)
    ultimately show ?thesis
      by (auto simp add: fun_eq_iff writes_commute)
  qed
  then have "fold (apply_write E) ws = fold (apply_write E) ws'"
    using assms(3) by (intro fold_multiset_equiv) simp_all
  then show ?thesis by simp
qed

text \<open>
  Claim C6. Two Styles built from the default-constructed Style by the same writes, each
  property written at most once and every write inside its legal domain, applied in any
  two orders, compare equal. Two Styles on which some property reads differently compare
  unequal, under \<open>operator==\<close> and under \<open>operator!=\<close>.
\<close>

theorem Style_eq_determinism:
  "(list_all (valid_write E) ws \<and> distinct (map written ws) \<and> mset ws' = mset ws \<longrightarrow>
      Style_eq (fold (apply_write E) ws (Style_new E)) (fold (apply_write E) ws' (Style_new E)))
   \<and> (read_property E p s \<noteq> read_property E p t \<longrightarrow> \<not> Style_eq s t \<and> Style_neq s t)"
proof (intro conjI impI)
  assume "list_all (valid_write E) ws \<and> distinct (map written ws) \<and> mset ws' = mset ws"
  then have "fold (apply_write E) ws' (Style_new E) = fold (apply_write E) ws (Style_new E)"
    by (simp add: writes_any_order)
  then show "Style_eq (fold (apply_write E) ws (Style_new E)) (fold (apply_write E) ws' (Style_new E))"
    by (simp add: Style_eq_iff)
next
  assume "read_property E p s \<noteq> read_property E p t"
  then have "s \<noteq> t" by auto
  then show "\<not> Style_eq s t" "Style_neq s t"
    by (simp_all add: Style_eq_iff Style_neq_def)
qed

theorem Style_eq_determinism_witness:
  "list_all (valid_write example_enums)
      [SetScalar Ptr_flexGrow (Some 1065353216), SetSlot Ptr_margin 0 (ofPoints 1092616192),
       SetPacked FlexWrap 2]
   \<and> distinct (map written
      [SetScalar Ptr_flexGrow (Some 1065353216), SetSlot Ptr_margin 0 (ofPoints 1092616192),
       SetPacked FlexWrap 2])
   \<and> mset [SetPacked FlexWrap 2, SetScalar Ptr_flexGrow (Some 1065353216),
       SetSlot Ptr_margin 0 (ofPoints 1092616192)]
     = mset [SetScalar Ptr_flexGrow (Some 1065353216), SetSlot Ptr_margin 0 (ofPoints 1092616192),
       SetPacked FlexWrap 2]
   \<and> Style_eq
       (fold (apply_write example_enums)
         [SetScalar Ptr_flexGrow (Some 1065353216), SetSlot Ptr_margin 0 (ofPoints 1092616192),
          SetPacked FlexWrap 2] (Style_new example_enums))
       (fold (apply_write example_enums)
         [SetPacked FlexWrap 2, SetScalar Ptr_flexGrow (Some 1065353216),
          SetSlot Ptr_margin 0 (ofPoints 1092616192)] (Style_new example_enums))
   \<and> read_property example_enums (Scalar Ptr_flexGrow)
        (apply_write example_enums (SetScalar Ptr_flexGrow (Some 1065353216)) (Style_new example_enums))
      \<noteq> read_property example_enums (Scalar Ptr_flexGrow) (Style_new example_enums)
   \<and> Style_neq
        (apply_write example_enums (SetScalar Ptr_flexGrow (Some 1065353216)) (Style_new example_enums))
        (Style_new example_enums)"
proof -
  let ?ws = "[SetScalar Ptr_flexGrow (Some 1065353216), SetSlot Ptr_margin 0 (ofPoints 1092616192),
       SetPacked FlexWrap 2]"
  let ?ws' = "[SetPacked FlexWrap 2, SetScalar Ptr_flexGrow (Some 1065353216),
       SetSlot Ptr_margin 0 (ofPoints 1092616192)]"
  let ?s = "apply_write example_enums (SetScalar Ptr_flexGrow (Some 1065353216))
       (Style_new example_enums)"
  note det = Style_eq_determinism [of example_enums ?ws ?ws' "Scalar Ptr_flexGrow" ?s
      "Style_new example_enums"]
  have valid: "list_all (valid_write example_enums) ?ws"
    by code_simp
  have dist: "distinct (map written ?ws)"
    by simp
  have perm: "mset ?ws' = mset ?ws"
    by (simp add: add.commute)
  have differ: "read_property example_enums (Scalar Ptr_flexGrow) ?s
      \<noteq> read_property example_enums (Scalar Ptr_flexGrow) (Style_new example_enums)"
    by (simp add: flexGrow_def Ref_assign_def Style_new_members YGFloatOptional_default_def)
  from det valid dist perm have "Style_eq (fold (apply_write example_enums) ?ws
      (Style_new example_enums)) (fold (apply_write example_enums) ?ws' (Style_new example_enums))"
    by blast
  moreover from det differ have "Style_neq ?s (Style_new example_enums)"
    by blast
  ultimately show ?thesis
    using valid dist perm differ by blast
qed

end
